theory Spec2Isabelle
  imports Complex_Main "HOL-Library.Log_Nat"
begin

section \<open>Python values\<close>

text \<open>
  The server works on what \<^verbatim>\<open>json.loads\<close> returns: \<^verbatim>\<open>None\<close>, booleans, integers,
  floats, strings, lists and dictionaries. A dictionary is an association list read with
  \<open>map_of\<close>. A float is the rational number that the double denotes; float arithmetic
  rounds every result to the nearest double, as IEEE 754 does (section on the relevance
  score). Infinities and NaN are not values of the model.
\<close>

datatype json =
    JNull
  | JBool bool
  | JInt int
  | JFloat rat
  | JStr string
  | JArr "json list"
  | JObj "(string \<times> json) list"

text \<open>Exceptions, each with the text that \<^verbatim>\<open>str(e)\<close> gives.\<close>

datatype exn =
    TypeError string
  | AttributeError string
  | KeyError string
  | ZeroDivisionError string
  | Exception string

fun str_exn :: "exn \<Rightarrow> string" where
  "str_exn (TypeError m) = m"
| "str_exn (AttributeError m) = m"
| "str_exn (KeyError m) = m"
| "str_exn (ZeroDivisionError m) = m"
| "str_exn (Exception m) = m"

text \<open>
  Builtins of Python that are taken as parameters: the \<^verbatim>\<open>repr\<close> of a float (shortest
  round-trip digits), the \<^verbatim>\<open>str\<close> of a list or dictionary, and \<^verbatim>\<open>json.dumps\<close>.
\<close>

record builtins =
  repr_float :: "rat \<Rightarrow> string"
  repr_container :: "json \<Rightarrow> string"
  json_dumps :: "json \<Rightarrow> exn + string"

definition digit_char :: "nat \<Rightarrow> char" where
  "digit_char n = ''0123456789'' ! n"

fun str_nat :: "nat \<Rightarrow> string" where
  "str_nat n = (if n < 10 then [digit_char n] else str_nat (n div 10) @ [digit_char (n mod 10)])"

definition str_int :: "int \<Rightarrow> string" where
  "str_int i = (if i < 0 then ''-'' @ str_nat (nat (- i)) else str_nat (nat i))"

text \<open>
  The \<^verbatim>\<open>repr\<close> of a float: a whole number below \<open>2^53\<close> in magnitude prints its digits
  followed by \<^verbatim>\<open>.0\<close>; every other float is left to the parameter.
\<close>

definition py_repr_float :: "builtins \<Rightarrow> rat \<Rightarrow> string" where
  "py_repr_float B x =
     (if of_int \<lfloor>x\<rfloor> = x \<and> \<bar>x\<bar> < 9007199254740992 then str_int \<lfloor>x\<rfloor> @ ''.0''
      else repr_float B x)"

text \<open>\<^verbatim>\<open>f"{v}"\<close>: the \<^verbatim>\<open>str\<close> of a value.\<close>

fun py_str :: "builtins \<Rightarrow> json \<Rightarrow> string" where
  "py_str B JNull = ''None''"
| "py_str B (JBool b) = (if b then ''True'' else ''False'')"
| "py_str B (JInt i) = str_int i"
| "py_str B (JFloat x) = py_repr_float B x"
| "py_str B (JStr s) = s"
| "py_str B (JArr xs) = repr_container B (JArr xs)"
| "py_str B (JObj d) = repr_container B (JObj d)"

text \<open>Truthiness, as \<^verbatim>\<open>if v:\<close> tests it.\<close>

fun py_truthy :: "json \<Rightarrow> bool" where
  "py_truthy JNull = False"
| "py_truthy (JBool b) = b"
| "py_truthy (JInt i) = (i \<noteq> 0)"
| "py_truthy (JFloat x) = (x \<noteq> 0)"
| "py_truthy (JStr s) = (s \<noteq> [])"
| "py_truthy (JArr xs) = (xs \<noteq> [])"
| "py_truthy (JObj d) = (d \<noteq> [])"

text \<open>\<^verbatim>\<open>d.get(k, default)\<close>.\<close>

definition dict_get :: "(string \<times> json) list \<Rightarrow> string \<Rightarrow> json \<Rightarrow> json" where
  "dict_get d k dflt = (case map_of d k of None \<Rightarrow> dflt | Some v \<Rightarrow> v)"

text \<open>\<^verbatim>\<open>sep.join(parts)\<close>.\<close>

fun join :: "string \<Rightarrow> string list \<Rightarrow> string" where
  "join sep [] = []"
| "join sep [x] = x"
| "join sep (x # y # ys) = x @ sep @ join sep (y # ys)"

section \<open>The filter expression\<close>

text \<open>
  The parameters of \<^verbatim>\<open>search_products_logic\<close> once bound. Python checks none of the
  annotations, so each holds any value; an omitted keyword holds its default.
\<close>

record search_args =
  query :: json
  top_k :: json
  max_price :: json
  category :: json
  in_stock_only :: json
  brand :: json

definition dquote :: string where
  "dquote = [CHR 0x22]"

text \<open>
  \<^verbatim>\<open>filter_parts = []\<close> followed by the four conditional appends, the same in
  \<^verbatim>\<open>mcp_server_http.py\<close> (lines 91-95) and \<^verbatim>\<open>gcp_simulation/main.py\<close> (lines 78-86).
\<close>

definition filter_parts :: "builtins \<Rightarrow> search_args \<Rightarrow> string list" where
  "filter_parts B a =
     (if max_price a \<noteq> JNull then [''price <= '' @ py_str B (max_price a)] else []) @
     (if py_truthy (category a)
      then [''category == '' @ dquote @ py_str B (category a) @ dquote] else []) @
     (if py_truthy (in_stock_only a) then [''in_stock == true''] else []) @
     (if py_truthy (brand a)
      then [''brand == '' @ dquote @ py_str B (brand a) @ dquote] else [])"

definition filter_expr :: "builtins \<Rightarrow> search_args \<Rightarrow> string" where
  "filter_expr B a =
     (if filter_parts B a \<noteq> [] then join '' && '' (filter_parts B a) else '''')"

section \<open>The relevance score\<close>

text \<open>
  \<^verbatim>\<open>f"{v:.1f}"\<close>: the value rounded to one decimal, a tie going to the even digit,
  with its sign.
\<close>

definition round_half_even :: "rat \<Rightarrow> int" where
  "round_half_even x =
     (let f = \<lfloor>x\<rfloor>; r = x - of_int f
      in if r < 1 / 2 then f else if 1 / 2 < r then f + 1 else if even f then f else f + 1)"

text \<open>
  IEEE 754 double precision, round to nearest, ties to even. \<open>binade x\<close> is the exponent
  \<open>e\<close> with \<open>2^e \<le> |x| < 2^(e+1)\<close>; the doubles around \<open>x\<close> are the multiples of
  \<open>ulp x = 2^(e-52)\<close>, or of \<open>2^(-1074)\<close> in the subnormal range; \<open>round_double x\<close> is the
  double the hardware returns for the exact result \<open>x\<close>. Overflow to infinity is not
  modelled: with a finite double as distance no step of the relevance expression
  overflows. A double is a fixed point of the rounding.
\<close>

definition binade :: "rat \<Rightarrow> int" where
  "binade x =
     (case quotient_of \<bar>x\<bar> of
        (p, q) \<Rightarrow> let g = bitlen p - bitlen q in if 2 powi g \<le> \<bar>x\<bar> then g else g - 1)"

definition ulp :: "rat \<Rightarrow> rat" where
  "ulp x = 2 powi (max (binade x) (- 1022) - 52)"

definition round_double :: "rat \<Rightarrow> rat" where
  "round_double x = of_int (round_half_even (x / ulp x)) * ulp x"

definition is_double :: "rat \<Rightarrow> bool" where
  "is_double x = (round_double x = x)"

definition tenths :: "rat \<Rightarrow> int" where
  "tenths x = round_half_even (\<bar>x\<bar> * 10)"

definition format_1f :: "rat \<Rightarrow> string" where
  "format_1f x =
     (if x < 0 then ''-'' else []) @
     str_nat (nat (tenths x) div 10) @ ''.'' @ str_nat (nat (tenths x) mod 10)"

text \<open>
  The expression inside the f-string, \<^verbatim>\<open>(1 / (1 + hit.distance)) * 100\<close>: three float
  operations, each rounded.
\<close>

definition percentage :: "rat \<Rightarrow> rat" where
  "percentage d = round_double (round_double (1 / round_double (1 + d)) * 100)"

text \<open>
  \<^verbatim>\<open>f"{(1 / (1 + hit.distance)) * 100:.1f}%"\<close> (line 119 of the MCP server, line 105 of
  the cloud function). The division raises when the float \<^verbatim>\<open>1 + distance\<close> is zero.
\<close>

definition relevance :: "rat \<Rightarrow> exn + string" where
  "relevance d =
     (if round_double (1 + d) = 0 then Inl (ZeroDivisionError ''float division by zero'')
      else Inr (format_1f (percentage d) @ ''%''))"

section \<open>The search operation\<close>

record hit =
  entity :: "(string \<times> json) list"
  distance :: rat

text \<open>The keyword arguments of \<^verbatim>\<open>collection.search\<close>.\<close>

record search_request =
  data :: "rat list list"
  anns_field :: string
  metric_type :: string
  nprobe :: int
  limit :: json
  expr :: string
  output_fields :: "string list"

text \<open>
  The module's globals after start-up: the embedding model (\<^verbatim>\<open>None\<close> when loading
  failed), the readiness flag and the collection handle. The model's \<^verbatim>\<open>encode\<close> and the
  collection's \<^verbatim>\<open>search\<close> are external and may raise.
\<close>

record env =
  embedding_model :: "(json \<Rightarrow> exn + rat list) option"
  MILVUS_READY :: bool
  collection :: "(search_request \<Rightarrow> exn + hit list list) option"

definition generate_embedding :: "env \<Rightarrow> json \<Rightarrow> exn + rat list" where
  "generate_embedding E text =
     (case embedding_model E of
        None \<Rightarrow> Inl (Exception ''Modello embedding non caricato'')
      | Some m \<Rightarrow> m text)"

definition entity_get :: "hit \<Rightarrow> string \<Rightarrow> string \<times> json" where
  "entity_get h k = (k, dict_get (entity h) k JNull)"

definition mcp_product :: "hit \<Rightarrow> exn + json" where
  "mcp_product h =
     (case relevance (distance h) of
        Inl e \<Rightarrow> Inl e
      | Inr r \<Rightarrow> Inr (JObj
          [entity_get h ''product_id'', entity_get h ''name'', entity_get h ''category'',
           entity_get h ''description'', entity_get h ''price'', entity_get h ''in_stock'',
           entity_get h ''brand'', (''relevance'', JStr r)]))"

definition gcp_product :: "hit \<Rightarrow> exn + json" where
  "gcp_product h =
     (case relevance (distance h) of
        Inl e \<Rightarrow> Inl e
      | Inr score_pct \<Rightarrow> Inr (JObj
          [entity_get h ''product_id'', entity_get h ''name'', entity_get h ''category'',
           entity_get h ''description'', entity_get h ''price'', entity_get h ''in_stock'',
           (''relevance'', JStr score_pct)]))"

text \<open>
  A loop or comprehension that appends \<open>f x\<close> for each element in order and stops at the
  first exception, as \<^verbatim>\<open>for hits in results: for hit in hits: products.append(...)\<close>
  does over the concatenated hit lists.
\<close>

fun map_exn :: "('a \<Rightarrow> exn + 'b) \<Rightarrow> 'a list \<Rightarrow> exn + 'b list" where
  "map_exn f [] = Inr []"
| "map_exn f (x # xs) =
     (case f x of
        Inl e \<Rightarrow> Inl e
      | Inr y \<Rightarrow> (case map_exn f xs of Inl e \<Rightarrow> Inl e | Inr ys \<Rightarrow> Inr (y # ys)))"

definition collection_search ::
  "env \<Rightarrow> search_request \<Rightarrow> exn + hit list list" where
  "collection_search E req =
     (case collection E of
        None \<Rightarrow> Inl (AttributeError ''NoneType object has no attribute search'')
      | Some c \<Rightarrow> c req)"

definition mcp_request :: "builtins \<Rightarrow> search_args \<Rightarrow> rat list \<Rightarrow> search_request" where
  "mcp_request B a query_embedding =
     \<lparr>data = [query_embedding], anns_field = ''embedding'', metric_type = ''L2'', nprobe = 10,
      limit = top_k a, expr = filter_expr B a,
      output_fields = [''product_id'', ''name'', ''category'', ''description'', ''price'',
                       ''in_stock'', ''brand'']\<rparr>"

definition gcp_request :: "builtins \<Rightarrow> search_args \<Rightarrow> rat list \<Rightarrow> search_request" where
  "gcp_request B a query_embedding =
     \<lparr>data = [query_embedding], anns_field = ''embedding'', metric_type = ''L2'', nprobe = 10,
      limit = top_k a, expr = filter_expr B a,
      output_fields = [''product_id'', ''name'', ''category'', ''description'', ''price'',
                       ''in_stock'']\<rparr>"

text \<open>\<^verbatim>\<open>search_products_logic\<close> of \<^verbatim>\<open>p_discovery_agent/mcp_server_http.py\<close>.\<close>

definition mcp_search_products_logic :: "env \<Rightarrow> builtins \<Rightarrow> search_args \<Rightarrow> exn + json" where
  "mcp_search_products_logic E B a =
     (if \<not> MILVUS_READY E
      then Inr (JObj [(''error'', JStr ''Milvus non connesso''), (''query_received'', query a)])
      else case generate_embedding E (query a) of
        Inl e \<Rightarrow> Inl e
      | Inr query_embedding \<Rightarrow>
          (case collection_search E (mcp_request B a query_embedding) of
             Inl e \<Rightarrow> Inl e
           | Inr results \<Rightarrow>
               (case map_exn mcp_product (concat results) of
                  Inl e \<Rightarrow> Inl e
                | Inr products \<Rightarrow> Inr (JObj
                    [(''query'', query a),
                     (''total_results'', JInt (int (length products))),
                     (''products'', JArr products)]))))"

text \<open>\<^verbatim>\<open>search_products_logic\<close> of \<^verbatim>\<open>gcp_simulation/main.py\<close>.\<close>

definition gcp_unavailable :: json where
  "gcp_unavailable = JObj
     [(''error'', JStr ''Servizio non disponibile (DB o Modello offline)''),
      (''details'', JStr ''Verifica la connessione a Milvus.'')]"

definition gcp_search_products_logic :: "env \<Rightarrow> builtins \<Rightarrow> search_args \<Rightarrow> exn + json" where
  "gcp_search_products_logic E B a =
     (if \<not> MILVUS_READY E \<or> embedding_model E = None then Inr gcp_unavailable
      else case embedding_model E of
        None \<Rightarrow> Inr gcp_unavailable
      | Some m \<Rightarrow>
          (case m (query a) of
             Inl e \<Rightarrow> Inl e
           | Inr query_embedding \<Rightarrow>
               (case collection_search E (gcp_request B a query_embedding) of
                  Inl e \<Rightarrow> Inl e
                | Inr results \<Rightarrow>
                    (case map_exn gcp_product (concat results) of
                       Inl e \<Rightarrow> Inl e
                     | Inr products \<Rightarrow> Inr (JObj
                         [(''query'', query a),
                          (''total_results'', JInt (int (length products))),
                          (''products'', JArr products),
                          (''filters_applied'', JObj
                             [(''max_price'', max_price a), (''category'', category a)])])))))"

section \<open>The protocol dispatcher\<close>

definition squote :: string where
  "squote = [CHR 0x27]"

definition param_names :: "string list" where
  "param_names = [''query'', ''top_k'', ''max_price'', ''category'', ''in_stock_only'', ''brand'']"

definition TOP_K_DEFAULT :: int where
  "TOP_K_DEFAULT = 5"

text \<open>
  \<^verbatim>\<open>search_products_logic(**args)\<close>: the call binds the keys of \<^verbatim>\<open>args\<close> to the
  parameters. It raises \<^verbatim>\<open>TypeError\<close> when \<^verbatim>\<open>args\<close> is not a dictionary, when a key
  is not a parameter, and when the required \<^verbatim>\<open>query\<close> is missing; the other parameters
  take their defaults.
\<close>

definition bind_args :: "json \<Rightarrow> exn + search_args" where
  "bind_args args =
     (case args of
        JObj d \<Rightarrow>
          (case filter (\<lambda>k. k \<notin> set param_names) (map fst d) of
             k # ks \<Rightarrow> Inl (TypeError
               (''search_products_logic() got an unexpected keyword argument '' @
                squote @ k @ squote))
           | [] \<Rightarrow>
               (case map_of d ''query'' of
                  None \<Rightarrow> Inl (TypeError
                    (''search_products_logic() missing 1 required positional argument: '' @
                     squote @ ''query'' @ squote))
                | Some q \<Rightarrow> Inr
                    \<lparr>query = q,
                     top_k = dict_get d ''top_k'' (JInt TOP_K_DEFAULT),
                     max_price = dict_get d ''max_price'' JNull,
                     category = dict_get d ''category'' JNull,
                     in_stock_only = dict_get d ''in_stock_only'' (JBool False),
                     brand = dict_get d ''brand'' JNull\<rparr>))
      | _ \<Rightarrow> Inl (TypeError
          ''search_products_logic() argument after ** must be a mapping''))"

text \<open>The body of the \<^verbatim>\<open>try\<close> block of the \<^verbatim>\<open>tools/call\<close> branch.\<close>

definition call_tool :: "env \<Rightarrow> builtins \<Rightarrow> json \<Rightarrow> exn + json" where
  "call_tool E B args =
     (case bind_args args of
        Inl e \<Rightarrow> Inl e
      | Inr a \<Rightarrow>
          (case mcp_search_products_logic E B a of
             Inl e \<Rightarrow> Inl e
           | Inr result \<Rightarrow>
               (case json_dumps B result of
                  Inl e \<Rightarrow> Inl e
                | Inr text \<Rightarrow> Inr (JObj
                    [(''content'', JArr [JObj [(''type'', JStr ''text''), (''text'', JStr text)]])]))))"

definition input_schema :: json where
  "input_schema = JObj
     [(''type'', JStr ''object''),
      (''properties'', JObj
         [(''query'', JObj
             [(''type'', JStr ''string''),
              (''description'', JStr ''Natural language description of the desired product'')]),
          (''top_k'', JObj
             [(''type'', JStr ''integer''),
              (''description'', JStr ''Maximum number of results to return (1-20)''),
              (''default'', JInt 5)]),
          (''max_price'', JObj
             [(''type'', JStr ''number''),
              (''description'', JStr ''Maximum price in EUR (optional filter)'')]),
          (''category'', JObj
             [(''type'', JStr ''string''),
              (''description'', JStr ''Product category to filter by''),
              (''enum'', JArr [JStr ''Footwear'', JStr ''Clothing'', JStr ''Electronics'',
                               JStr ''Accessories'', JStr ''Outdoor''])]),
          (''in_stock_only'', JObj
             [(''type'', JStr ''boolean''),
              (''description'', JStr ''If true, return only products currently in stock''),
              (''default'', JBool False)]),
          (''brand'', JObj
             [(''type'', JStr ''string''),
              (''description'', JStr ''Brand name to filter by (e.g., 'ActiveGear')'')])]),
      (''required'', JArr [JStr ''query''])]"

definition tools_list_result :: json where
  "tools_list_result = JObj
     [(''tools'', JArr [JObj
         [(''name'', JStr ''search_products''),
          (''description'', JStr
             (''Semantic search for e-commerce products. Understands natural language '' @
              ''queries (e.g., 'waterproof running shoes under 100 euros') and returns '' @
              ''ranked results with relevance scores. Supports optional filtering by '' @
              ''price, category, brand, and stock availability. Use this tool when '' @
              ''customers want to find, search, browse, or get recommendations for '' @
              ''products.'')),
          (''inputSchema'', input_schema)]])]"

definition initialize_result :: json where
  "initialize_result = JObj
     [(''protocolVersion'', JStr ''2024-11-05''),
      (''capabilities'', JObj [(''tools'', JObj [])]),
      (''serverInfo'', JObj [(''name'', JStr ''ecommerce-mcp''), (''version'', JStr ''1.0.0'')])]"

text \<open>The two shapes of a JSON-RPC response.\<close>

definition rpc_result :: "json \<Rightarrow> json \<Rightarrow> json" where
  "rpc_result jsonrpc_id r = JObj [(''jsonrpc'', JStr ''2.0''), (''id'', jsonrpc_id), (''result'', r)]"

definition rpc_error :: "json \<Rightarrow> int \<Rightarrow> string \<Rightarrow> json" where
  "rpc_error jsonrpc_id code message = JObj
     [(''jsonrpc'', JStr ''2.0''), (''id'', jsonrpc_id),
      (''error'', JObj [(''code'', JInt code), (''message'', JStr message)])]"

text \<open>
  What the transport sees of one request: an \<^verbatim>\<open>HTTPException\<close> with its status, an
  exception that the handler did not catch, or a returned body (status 200).
\<close>

datatype http_result =
    HTTPException nat string
  | Unhandled exn
  | Response json

definition no_get :: exn where
  "no_get = AttributeError ''object has no attribute 'get' ''"

text \<open>
  \<^verbatim>\<open>handle_mcp\<close>. The argument is the outcome of \<^verbatim>\<open>await request.json()\<close>: an
  exception when the body is not JSON, the parsed value otherwise. Only a dictionary has
  \<^verbatim>\<open>get\<close>; on any other value the attribute lookup raises outside every \<^verbatim>\<open>try\<close>.
\<close>

definition handle_mcp :: "env \<Rightarrow> builtins \<Rightarrow> exn + json \<Rightarrow> http_result" where
  "handle_mcp E B body =
     (case body of
        Inl e \<Rightarrow> HTTPException 400 ''Invalid JSON''
      | Inr (JObj payload) \<Rightarrow>
          (let jsonrpc_id = dict_get payload ''id'' JNull;
               method = dict_get payload ''method'' JNull;
               params = dict_get payload ''params'' (JObj [])
           in if method = JStr ''initialize'' then
                Response (rpc_result jsonrpc_id initialize_result)
              else if method = JStr ''notifications/initialized'' then
                Response (rpc_result jsonrpc_id (JBool True))
              else if method = JStr ''tools/list'' then
                Response (rpc_result jsonrpc_id tools_list_result)
              else if method = JStr ''tools/call'' then
                (case params of
                   JObj ps \<Rightarrow>
                     (case call_tool E B (dict_get ps ''arguments'' (JObj [])) of
                        Inr r \<Rightarrow> Response (rpc_result jsonrpc_id r)
                      | Inl e \<Rightarrow> Response (rpc_error jsonrpc_id (- 32000) (str_exn e)))
                 | _ \<Rightarrow> Unhandled no_get)
              else if method = JStr ''ping'' then
                Response (rpc_result jsonrpc_id (JObj []))
              else Response (rpc_error jsonrpc_id (- 32601) ''Method not found''))
      | Inr _ \<Rightarrow> Unhandled no_get)"

section \<open>The catalog indexer\<close>

text \<open>
  One column of the data handed to \<^verbatim>\<open>collection.insert\<close>, and the collection
  \<^verbatim>\<open>products\<close> on the Milvus server: the batches inserted into it, whether the index on
  the vector field exists, whether it is loaded. The server holds the collection or not.
\<close>

datatype column = Scalars "json list" | Vectors "rat list list"

record milvus_collection =
  batches :: "column list list"
  has_index :: bool
  loaded :: bool

text \<open>
  The external parts of a run of \<^verbatim>\<open>ingest.py\<close>: whether \<^verbatim>\<open>connections.connect\<close>
  raises, what \<^verbatim>\<open>load_products\<close> reads (a list of dictionaries, or the exception it
  re-raises), whether the embedding model loads and what its \<^verbatim>\<open>encode\<close> returns, and
  whether the server rejects the inserted data.
\<close>

record etl_env =
  connect_error :: "exn option"
  products_file :: "exn + (string \<times> json) list list"
  sentence_transformer :: "exn + (json list \<Rightarrow> exn + rat list list)"
  insert_error :: "column list \<Rightarrow> exn option"

text \<open>Sequencing: an exception of the first step skips the rest.\<close>

definition bind_exn :: "exn + 'a \<Rightarrow> ('a \<Rightarrow> exn + 'b) \<Rightarrow> exn + 'b" where
  "bind_exn r f = (case r of Inl e \<Rightarrow> Inl e | Inr x \<Rightarrow> f x)"

text \<open>\<^verbatim>\<open>p[k]\<close> on a dictionary.\<close>

definition getitem :: "string \<Rightarrow> (string \<times> json) list \<Rightarrow> exn + json" where
  "getitem k p =
     (case map_of p k of None \<Rightarrow> Inl (KeyError (squote @ k @ squote)) | Some v \<Rightarrow> Inr v)"

text \<open>\<^verbatim>\<open>create_collection\<close>: an existing collection is dropped, a new one created and indexed.\<close>

definition create_collection :: "milvus_collection option \<Rightarrow> milvus_collection" where
  "create_collection db = \<lparr>batches = [], has_index = True, loaded = False\<rparr>"

text \<open>
  \<^verbatim>\<open>insert_products\<close>: the eight columns are built in the order of the source, then
  inserted and flushed.
\<close>

definition insert_products ::
  "etl_env \<Rightarrow> milvus_collection \<Rightarrow> (string \<times> json) list list \<Rightarrow> rat list list
   \<Rightarrow> exn + milvus_collection" where
  "insert_products X c products embeddings =
     bind_exn (map_exn (getitem ''product_id'') products) (\<lambda>ids.
     bind_exn (map_exn (getitem ''name'') products) (\<lambda>names.
     bind_exn (map_exn (getitem ''description'') products) (\<lambda>descriptions.
     bind_exn (map_exn (getitem ''category'') products) (\<lambda>categories.
     bind_exn (map_exn (getitem ''price'') products) (\<lambda>prices.
     bind_exn (map_exn (getitem ''in_stock'') products) (\<lambda>stocks.
     bind_exn (map_exn (getitem ''brand'') products) (\<lambda>brands.
       (let data = [Scalars ids, Vectors embeddings, Scalars names, Scalars descriptions,
                    Scalars categories, Scalars prices, Scalars stocks, Scalars brands]
        in (case insert_error X data of
              Some e \<Rightarrow> Inl e
            | None \<Rightarrow> Inr (c\<lparr>batches := batches c @ [data]\<rparr>))))))))))"

text \<open>
  \<^verbatim>\<open>main\<close>: the outcome of the run and the collection left on the server. No step
  catches an exception, so the first one ends the run.
\<close>

definition main ::
  "etl_env \<Rightarrow> milvus_collection option \<Rightarrow> (exn + unit) \<times> milvus_collection option" where
  "main X db =
     (case connect_error X of
        Some e \<Rightarrow> (Inl e, db)
      | None \<Rightarrow>
          (let c = create_collection db in
           case products_file X of
             Inl e \<Rightarrow> (Inl e, Some c)
           | Inr products \<Rightarrow>
               (case sentence_transformer X of
                  Inl e \<Rightarrow> (Inl e, Some c)
                | Inr encode \<Rightarrow>
                    (case map_exn (getitem ''description'') products of
                       Inl e \<Rightarrow> (Inl e, Some c)
                     | Inr descriptions \<Rightarrow>
                         (case encode descriptions of
                            Inl e \<Rightarrow> (Inl e, Some c)
                          | Inr embeddings \<Rightarrow>
                              (case insert_products X c products embeddings of
                                 Inl e \<Rightarrow> (Inl e, Some c)
                               | Inr c' \<Rightarrow> (Inr (), Some (c'\<lparr>loaded := True\<rparr>))))))))"

section \<open>The specification's view of a filter\<close>

text \<open>
  The SearchFilter of the specification, typed as the annotations of the keyword
  parameters say (\<^verbatim>\<open>Optional[float]\<close>, \<^verbatim>\<open>Optional[str]\<close>, \<^verbatim>\<open>bool = False\<close>,
  \<^verbatim>\<open>Optional[str]\<close>); a JSON number is an integer or a float. \<open>None\<close> is an absent
  field.
\<close>

datatype number = NInt int | NFloat rat

record search_filter =
  sf_max_price :: "number option"
  sf_category :: "string option"
  sf_in_stock_only :: "bool option"
  sf_brand :: "string option"

fun json_of_number :: "number \<Rightarrow> json" where
  "json_of_number (NInt i) = JInt i"
| "json_of_number (NFloat x) = JFloat x"

text \<open>
  How a filter reaches \<^verbatim>\<open>search_products_logic\<close>: an absent field is an omitted keyword,
  which takes the default of the signature.
\<close>

definition filter_args :: "json \<Rightarrow> json \<Rightarrow> search_filter \<Rightarrow> search_args" where
  "filter_args q k f =
     \<lparr>query = q, top_k = k,
      max_price = (case sf_max_price f of None \<Rightarrow> JNull | Some n \<Rightarrow> json_of_number n),
      category = (case sf_category f of None \<Rightarrow> JNull | Some s \<Rightarrow> JStr s),
      in_stock_only = (case sf_in_stock_only f of None \<Rightarrow> JBool False | Some b \<Rightarrow> JBool b),
      brand = (case sf_brand f of None \<Rightarrow> JNull | Some s \<Rightarrow> JStr s)\<rparr>"

text \<open>The atomic constraints and their text in the index's predicate language.\<close>

datatype constraint = PriceLe number | CategoryEq string | InStockEq bool | BrandEq string

fun render :: "builtins \<Rightarrow> constraint \<Rightarrow> string" where
  "render B (PriceLe n) = ''price <= '' @ py_str B (json_of_number n)"
| "render B (CategoryEq s) = ''category == '' @ dquote @ s @ dquote"
| "render B (InStockEq b) = ''in_stock == '' @ (if b then ''true'' else ''false'')"
| "render B (BrandEq s) = ''brand == '' @ dquote @ s @ dquote"

text \<open>The conjunction of a list of constraints; of none, the match-all (empty) expression.\<close>

definition conjunction :: "builtins \<Rightarrow> constraint list \<Rightarrow> string" where
  "conjunction B cs = join '' && '' (map (render B) cs)"

text \<open>
  The constraints as the specification words them: one for each field that is present,
  and the stock constraint when \<^verbatim>\<open>in_stock_only\<close> is true.
\<close>

definition spec_constraints :: "search_filter \<Rightarrow> constraint list" where
  "spec_constraints f =
     (case sf_max_price f of None \<Rightarrow> [] | Some n \<Rightarrow> [PriceLe n]) @
     (case sf_category f of None \<Rightarrow> [] | Some s \<Rightarrow> [CategoryEq s]) @
     (if sf_in_stock_only f = Some True then [InStockEq True] else []) @
     (case sf_brand f of None \<Rightarrow> [] | Some s \<Rightarrow> [BrandEq s])"

text \<open>The same with an empty category or brand counted as absent.\<close>

definition effective_constraints :: "search_filter \<Rightarrow> constraint list" where
  "effective_constraints f =
     (case sf_max_price f of None \<Rightarrow> [] | Some n \<Rightarrow> [PriceLe n]) @
     (case sf_category f of None \<Rightarrow> [] | Some s \<Rightarrow> if s = [] then [] else [CategoryEq s]) @
     (if sf_in_stock_only f = Some True then [InStockEq True] else []) @
     (case sf_brand f of None \<Rightarrow> [] | Some s \<Rightarrow> if s = [] then [] else [BrandEq s])"

definition no_filter :: search_filter where
  "no_filter = \<lparr>sf_max_price = None, sf_category = None, sf_in_stock_only = None,
                sf_brand = None\<rparr>"

section \<open>Predicates used in the statements\<close>

text \<open>The arguments of a \<^verbatim>\<open>tools/call\<close> have no \<^verbatim>\<open>query\<close>.\<close>

definition lacks_query :: "json \<Rightarrow> bool" where
  "lacks_query args = (case args of JObj d \<Rightarrow> map_of d ''query'' = None | _ \<Rightarrow> True)"

text \<open>
  The contract of the vector index on the result count: one hit list for each query
  vector, none longer than the requested limit.
\<close>

definition within_limit :: "search_request \<Rightarrow> hit list list \<Rightarrow> bool" where
  "within_limit req results =
     (length results = length (data req) \<and>
      (case limit req of
         JInt k \<Rightarrow> list_all (\<lambda>hits. int (length hits) \<le> k) results
       | _ \<Rightarrow> True))"

text \<open>The fields that \<^verbatim>\<open>ingest.py\<close> reads from every source record.\<close>

definition required_fields :: "string list" where
  "required_fields =
     [''product_id'', ''name'', ''description'', ''category'', ''price'', ''in_stock'', ''brand'']"

definition well_formed :: "(string \<times> json) list \<Rightarrow> bool" where
  "well_formed p = list_all (\<lambda>k. map_of p k \<noteq> None) required_fields"

text \<open>Concrete builtins for the closed examples.\<close>

definition B0 :: builtins where
  "B0 = \<lparr>repr_float = (\<lambda>x. ''float''), repr_container = (\<lambda>v. ''container''),
          json_dumps = (\<lambda>v. Inr ''json'')\<rparr>"

text \<open>Concrete globals, arguments, hits and requests for the closed examples.\<close>

definition E_no_model :: env where
  "E_no_model =
     \<lparr>embedding_model = None, MILVUS_READY = True, collection = Some (\<lambda>req. Inr [[]])\<rparr>"

definition E_no_milvus :: env where
  "E_no_milvus =
     \<lparr>embedding_model = Some (\<lambda>text. Inr [0]), MILVUS_READY = False, collection = None\<rparr>"

definition a_shoes :: search_args where
  "a_shoes = filter_args (JStr ''shoes'') (JInt 3) no_filter"

definition h_near :: hit where
  "h_near = \<lparr>entity = [(''product_id'', JInt 1), (''name'', JStr ''Trail Runner''),
                        (''price'', JFloat 80)], distance = 1\<rparr>"

definition h_neg :: hit where
  "h_neg = \<lparr>entity = [(''product_id'', JInt 2), (''name'', JStr ''Rain Jacket'')],
            distance = - 1 / 2\<rparr>"

text \<open>An index that answers every query vector with at most \<open>limit\<close> of two stored hits.\<close>

definition idx_two :: "search_request \<Rightarrow> exn + hit list list" where
  "idx_two req =
     (case limit req of
        JInt k \<Rightarrow>
          if k \<le> 0 then Inl (Exception ''invalid limit'')
          else Inr (map (\<lambda>v. take (nat k) [h_near, h_neg]) (data req))
      | _ \<Rightarrow> Inl (Exception ''invalid limit''))"

definition E_ready :: env where
  "E_ready =
     \<lparr>embedding_model = Some (\<lambda>text. Inr [0]), MILVUS_READY = True, collection = Some idx_two\<rparr>"

definition call_without_query :: "(string \<times> json) list" where
  "call_without_query =
     [(''jsonrpc'', JStr ''2.0''), (''id'', JInt 7), (''method'', JStr ''tools/call''),
      (''params'', JObj [(''name'', JStr ''search_products''),
                         (''arguments'', JObj [(''top_k'', JInt 3)])])]"

definition call_with_query :: "(string \<times> json) list" where
  "call_with_query =
     [(''jsonrpc'', JStr ''2.0''), (''id'', JInt 8), (''method'', JStr ''tools/call''),
      (''params'', JObj [(''name'', JStr ''search_products''),
                         (''arguments'', JObj [(''query'', JStr ''shoes'')])])]"

definition unknown_method :: "(string \<times> json) list" where
  "unknown_method =
     [(''jsonrpc'', JStr ''2.0''), (''id'', JStr ''a''), (''method'', JStr ''resources/list'')]"

definition ping_request :: "(string \<times> json) list" where
  "ping_request = [(''jsonrpc'', JStr ''2.0''), (''id'', JInt 9), (''method'', JStr ''ping'')]"

definition call_null_params :: "(string \<times> json) list" where
  "call_null_params =
     [(''jsonrpc'', JStr ''2.0''), (''id'', JInt 7), (''method'', JStr ''tools/call''),
      (''params'', JNull)]"

definition call_no_params :: "(string \<times> json) list" where
  "call_no_params = [(''method'', JStr ''tools/call'')]"

definition h_far :: hit where
  "h_far = \<lparr>entity = [(''product_id'', JInt 3)], distance = - 3\<rparr>"

text \<open>A run of the indexer over two records, the second without a brand.\<close>

definition shoe_record :: "(string \<times> json) list" where
  "shoe_record =
     [(''product_id'', JInt 1), (''name'', JStr ''Trail Runner''),
      (''description'', JStr ''Waterproof running shoe''), (''category'', JStr ''Footwear''),
      (''price'', JFloat 80), (''in_stock'', JBool True), (''brand'', JStr ''ActiveGear'')]"

definition jacket_record :: "(string \<times> json) list" where
  "jacket_record =
     [(''product_id'', JInt 2), (''name'', JStr ''Rain Jacket''),
      (''description'', JStr ''Light rain jacket''), (''category'', JStr ''Clothing''),
      (''price'', JFloat 60), (''in_stock'', JBool False)]"

definition X_missing_brand :: etl_env where
  "X_missing_brand =
     \<lparr>connect_error = None, products_file = Inr [shoe_record, jacket_record],
      sentence_transformer = Inr (\<lambda>texts. Inr (map (\<lambda>t. [0]) texts)),
      insert_error = (\<lambda>data. None)\<rparr>"

declare str_nat.simps [simp del]

section \<open>Filter expression: the theorems\<close>

lemma json_of_number_not_null [simp]: "json_of_number n \<noteq> JNull"
  by (cases n) simp_all

lemma parts_effective:
  "filter_parts B (filter_args q k f) = map (render B) (effective_constraints f)"
  by (cases f) (simp add: filter_parts_def filter_args_def effective_constraints_def
      split: option.splits)



text \<open>
  C10: the string fields are tested for truthiness and the price for \<^verbatim>\<open>None\<close>. Whatever
  the other arguments, an empty category or brand builds the same parts as an absent one,
  while a non-empty category or brand emits its equality constraint; a \<^verbatim>\<open>max_price\<close> of
  \<^verbatim>\<open>0.0\<close> (or of the integer \<open>0\<close>) is falsy but not \<^verbatim>\<open>None\<close> and emits
  \<^verbatim>\<open>price <= 0.0\<close> (\<^verbatim>\<open>price <= 0\<close>). With the other fields absent, the expression is
  \<^verbatim>\<open>price <= 0.0\<close> for the zero price with empty strings, empty for empty strings alone,
  and the two equalities joined by \<^verbatim>\<open>&&\<close> for a non-empty category and brand.
\<close>

theorem falsy_strings_absent:
  "filter_parts B (a\<lparr>category := JStr ''''\<rparr>) = filter_parts B (a\<lparr>category := JNull\<rparr>) \<and>
   filter_parts B (a\<lparr>brand := JStr ''''\<rparr>) = filter_parts B (a\<lparr>brand := JNull\<rparr>) \<and>
   ''category == '' @ dquote @ (c # cs) @ dquote
      \<in> set (filter_parts B (a\<lparr>category := JStr (c # cs)\<rparr>)) \<and>
   length (filter_parts B (a\<lparr>category := JStr (c # cs)\<rparr>)) =
      Suc (length (filter_parts B (a\<lparr>category := JStr ''''\<rparr>))) \<and>
   ''brand == '' @ dquote @ (c # cs) @ dquote
      \<in> set (filter_parts B (a\<lparr>brand := JStr (c # cs)\<rparr>)) \<and>
   length (filter_parts B (a\<lparr>brand := JStr (c # cs)\<rparr>)) =
      Suc (length (filter_parts B (a\<lparr>brand := JStr ''''\<rparr>))) \<and>
   ''price <= 0.0'' \<in> set (filter_parts B (a\<lparr>max_price := JFloat 0\<rparr>)) \<and>
   ''price <= 0'' \<in> set (filter_parts B (a\<lparr>max_price := JInt 0\<rparr>)) \<and>
   length (filter_parts B (a\<lparr>max_price := JFloat 0\<rparr>)) =
      Suc (length (filter_parts B (a\<lparr>max_price := JNull\<rparr>))) \<and>
   filter_expr B \<lparr>query = q, top_k = k, max_price = JFloat 0, category = JStr '''',
      in_stock_only = JBool False, brand = JStr ''''\<rparr> = ''price <= 0.0'' \<and>
   filter_expr B \<lparr>query = q, top_k = k, max_price = JNull, category = JStr '''',
      in_stock_only = JBool False, brand = JStr ''''\<rparr> = '''' \<and>
   filter_expr B \<lparr>query = q, top_k = k, max_price = JNull, category = JStr ''Footwear'',
      in_stock_only = JBool False, brand = JStr ''ActiveGear''\<rparr> =
     ''category == '' @ dquote @ ''Footwear'' @ dquote @ '' && '' @
     ''brand == '' @ dquote @ ''ActiveGear'' @ dquote"
proof -
  have zero: "py_str B (JFloat 0) = ''0.0''" "py_str B (JInt 0) = ''0''"
    by (simp_all add: py_repr_float_def str_int_def str_nat.simps digit_char_def)
  have empty: "filter_parts B (a\<lparr>category := JStr ''''\<rparr>) = filter_parts B (a\<lparr>category := JNull\<rparr>)"
    "filter_parts B (a\<lparr>brand := JStr ''''\<rparr>) = filter_parts B (a\<lparr>brand := JNull\<rparr>)"
    by (simp_all add: filter_parts_def)
  have cat: "''category == '' @ dquote @ (c # cs) @ dquote
      \<in> set (filter_parts B (a\<lparr>category := JStr (c # cs)\<rparr>))"
    "length (filter_parts B (a\<lparr>category := JStr (c # cs)\<rparr>)) =
      Suc (length (filter_parts B (a\<lparr>category := JStr ''''\<rparr>)))"
    by (simp_all add: filter_parts_def)
  have brand: "''brand == '' @ dquote @ (c # cs) @ dquote
      \<in> set (filter_parts B (a\<lparr>brand := JStr (c # cs)\<rparr>))"
    "length (filter_parts B (a\<lparr>brand := JStr (c # cs)\<rparr>)) =
      Suc (length (filter_parts B (a\<lparr>brand := JStr ''''\<rparr>)))"
    by (simp_all add: filter_parts_def)
  have price: "''price <= 0.0'' \<in> set (filter_parts B (a\<lparr>max_price := JFloat 0\<rparr>))"
    "''price <= 0'' \<in> set (filter_parts B (a\<lparr>max_price := JInt 0\<rparr>))"
    "length (filter_parts B (a\<lparr>max_price := JFloat 0\<rparr>)) =
      Suc (length (filter_parts B (a\<lparr>max_price := JNull\<rparr>)))"
    using zero by (simp_all add: filter_parts_def)
  have exprs: "filter_expr B \<lparr>query = q, top_k = k, max_price = JFloat 0, category = JStr '''',
      in_stock_only = JBool False, brand = JStr ''''\<rparr> = ''price <= 0.0''"
    "filter_expr B \<lparr>query = q, top_k = k, max_price = JNull, category = JStr '''',
      in_stock_only = JBool False, brand = JStr ''''\<rparr> = ''''"
    "filter_expr B \<lparr>query = q, top_k = k, max_price = JNull, category = JStr ''Footwear'',
      in_stock_only = JBool False, brand = JStr ''ActiveGear''\<rparr> =
     ''category == '' @ dquote @ ''Footwear'' @ dquote @ '' && '' @
     ''brand == '' @ dquote @ ''ActiveGear'' @ dquote"
    using zero by (simp_all add: filter_expr_def filter_parts_def)
  from empty cat brand price exprs show ?thesis by blast
qed

section \<open>Relevance score: the theorems\<close>

lemma round_half_even_bounds: "\<lfloor>x\<rfloor> \<le> round_half_even x \<and> round_half_even x \<le> \<lfloor>x\<rfloor> + 1"
  by (simp add: round_half_even_def Let_def)

lemma round_half_even_mono:
  assumes "x \<le> y"
  shows "round_half_even x \<le> round_half_even y"
proof (cases "\<lfloor>x\<rfloor> < \<lfloor>y\<rfloor>")
  case True
  have "round_half_even x \<le> \<lfloor>x\<rfloor> + 1" using round_half_even_bounds by blast
  also have "\<dots> \<le> \<lfloor>y\<rfloor>" using True by simp
  also have "\<dots> \<le> round_half_even y" using round_half_even_bounds by blast
  finally show ?thesis .
next
  case False
  with assms have eq: "\<lfloor>x\<rfloor> = \<lfloor>y\<rfloor>" using floor_mono [of x y] by linarith
  show ?thesis
    using assms by (auto simp: round_half_even_def Let_def eq)
qed

lemma round_half_even_of_int [simp]: "round_half_even (of_int n) = n"
  by (simp add: round_half_even_def)

lemma round_half_even_zero_bound:
  assumes "round_half_even z = 0"
  shows "\<bar>z\<bar> \<le> 1 / 2"
proof -
  have "\<lfloor>z\<rfloor> = 0 \<or> \<lfloor>z\<rfloor> = - 1"
    using round_half_even_bounds [of z] assms by linarith
  then show ?thesis
  proof
    assume f: "\<lfloor>z\<rfloor> = 0"
    then have "0 \<le> z" by (simp add: floor_eq_iff)
    moreover have "z \<le> 1 / 2"
      using assms f by (auto simp: round_half_even_def Let_def split: if_splits)
    ultimately show ?thesis by simp
  next
    assume f: "\<lfloor>z\<rfloor> = - 1"
    then have "z < 0" by (simp add: floor_eq_iff)
    moreover have "- 1 / 2 \<le> z"
      using assms f by (auto simp: round_half_even_def Let_def split: if_splits)
    ultimately show ?thesis by simp
  qed
qed

lemma binade_bounds:
  assumes "x \<noteq> 0"
  shows "2 powi binade x \<le> \<bar>x\<bar> \<and> \<bar>x\<bar> < 2 powi (binade x + 1)"
proof -
  obtain p q where pq: "quotient_of \<bar>x\<bar> = (p, q)" by (cases "quotient_of \<bar>x\<bar>")
  then have q: "0 < q" and x: "\<bar>x\<bar> = of_int p / of_int q"
    by (simp_all add: quotient_of_denom_pos quotient_of_div)
  have p: "0 < p"
  proof -
    have "0 < \<bar>x\<bar>" using assms by simp
    then have "0 < (of_int p :: rat) / of_int q" using x by simp
    then show ?thesis using q by (simp add: zero_less_divide_iff)
  qed
  define a where "a = bitlen p"
  define b where "b = bitlen q"
  have a1: "1 \<le> a" using p bitlen_eq_zero_iff [of p] bitlen_nonneg [of p] by (simp add: a_def)
  have b1: "1 \<le> b" using q bitlen_eq_zero_iff [of q] bitlen_nonneg [of q] by (simp add: b_def)
  have pa: "(2::rat) powi (a - 1) \<le> of_int p" "(of_int p :: rat) < 2 powi a"
  proof -
    have "2 ^ nat (a - 1) \<le> p" "p < 2 ^ nat a"
      using bitlen_bounds [OF p] by (simp_all add: a_def)
    then have "(of_int (2 ^ nat (a - 1)) :: rat) \<le> of_int p" "(of_int p :: rat) < of_int (2 ^ nat a)"
      by (simp_all only: of_int_le_iff of_int_less_iff)
    then show "(2::rat) powi (a - 1) \<le> of_int p" "(of_int p :: rat) < 2 powi a"
      using a1 by (simp_all add: power_int_def)
  qed
  have qb: "(2::rat) powi (b - 1) \<le> of_int q" "(of_int q :: rat) < 2 powi b"
  proof -
    have "2 ^ nat (b - 1) \<le> q" "q < 2 ^ nat b"
      using bitlen_bounds [OF q] by (simp_all add: b_def)
    then have "(of_int (2 ^ nat (b - 1)) :: rat) \<le> of_int q" "(of_int q :: rat) < of_int (2 ^ nat b)"
      by (simp_all only: of_int_le_iff of_int_less_iff)
    then show "(2::rat) powi (b - 1) \<le> of_int q" "(of_int q :: rat) < 2 powi b"
      using b1 by (simp_all add: power_int_def)
  qed
  have qpos: "(0::rat) < of_int q" using q by simp
  have upper: "\<bar>x\<bar> < 2 powi (a - b + 1)"
  proof -
    have "of_int p / of_int q < (2::rat) powi a / of_int q"
      using pa(2) qpos by (simp add: divide_strict_right_mono)
    also have "\<dots> \<le> 2 powi a / 2 powi (b - 1)"
      using qb(1) by (intro frac_le) simp_all
    also have "\<dots> = 2 powi (a - b + 1)"
      by (simp add: power_int_diff [symmetric] algebra_simps)
    finally show ?thesis using x by simp
  qed
  have lower: "2 powi (a - b - 1) < \<bar>x\<bar>"
  proof -
    have "(2::rat) powi (a - b - 1) = 2 powi (a - 1) / 2 powi b"
      by (simp add: power_int_diff [symmetric] algebra_simps)
    also have "\<dots> < 2 powi (a - 1) / of_int q"
      using qb(2) qpos by (intro frac_less2) simp_all
    also have "\<dots> \<le> of_int p / of_int q"
      using pa(1) qpos by (simp add: divide_right_mono)
    finally show ?thesis using x by simp
  qed
  show ?thesis
  proof (cases "2 powi (a - b) \<le> \<bar>x\<bar>")
    case True
    then have "binade x = a - b" by (simp add: binade_def pq a_def b_def)
    with True upper show ?thesis by simp
  next
    case False
    then have "binade x = a - b - 1" by (simp add: binade_def pq a_def b_def)
    with False lower show ?thesis by simp
  qed
qed

lemma powi2_less_imp: "(2::rat) powi m < 2 powi n \<Longrightarrow> m < n"
  using power_int_increasing [of n m "2::rat"] by (cases "m < n") simp_all

lemma powi2_le_imp: "(2::rat) powi m \<le> 2 powi n \<Longrightarrow> m \<le> n"
  using power_int_strict_increasing [of n m "2::rat"] by (cases "m \<le> n") simp_all

lemma binade_mono:
  assumes "0 < x" "x \<le> y"
  shows "binade x \<le> binade y"
proof -
  have "2 powi binade x \<le> \<bar>x\<bar>" using binade_bounds [of x] assms by simp
  also have "\<dots> \<le> \<bar>y\<bar>" using assms by simp
  also have "\<dots> < 2 powi (binade y + 1)" using binade_bounds [of y] assms by simp
  finally have "(2::rat) powi binade x < 2 powi (binade y + 1)" .
  then have "binade x < binade y + 1"
    by (rule powi2_less_imp)
  then show ?thesis by simp
qed

declare power_int_numeral_neg_numeral [simp del]

lemma ulp_pos [simp]: "0 < ulp x"
  by (simp add: ulp_def)

lemma powi2_nat: "0 \<le> k \<Longrightarrow> (2::rat) powi k = of_int (2 ^ nat k)"
  by (simp add: power_int_def)

lemma round_double_ge_grid:
  assumes "of_int n * ulp x \<le> x"
  shows "of_int n * ulp x \<le> round_double x"
proof -
  have "of_int n \<le> x / ulp x" using assms by (simp add: pos_le_divide_eq)
  then have "round_half_even (of_int n) \<le> round_half_even (x / ulp x)"
    by (rule round_half_even_mono)
  then have "(of_int n :: rat) \<le> of_int (round_half_even (x / ulp x))" by simp
  then show ?thesis unfolding round_double_def by (simp add: mult_right_mono)
qed

lemma round_double_le_grid:
  assumes "x \<le> of_int n * ulp x"
  shows "round_double x \<le> of_int n * ulp x"
proof -
  have "x / ulp x \<le> of_int n" using assms by (simp add: pos_divide_le_eq)
  then have "round_half_even (x / ulp x) \<le> round_half_even (of_int n)"
    by (rule round_half_even_mono)
  then have "(of_int (round_half_even (x / ulp x)) :: rat) \<le> of_int n" by simp
  then show ?thesis unfolding round_double_def by (simp add: mult_right_mono)
qed

lemma round_double_nonneg: "0 \<le> x \<Longrightarrow> 0 \<le> round_double x"
  using round_double_ge_grid [of 0 x] by simp

lemma round_double_nonpos: "x \<le> 0 \<Longrightarrow> round_double x \<le> 0"
  using round_double_le_grid [of x 0] by simp

lemma round_double_mono_pos:
  assumes "0 \<le> x" "x \<le> y"
  shows "round_double x \<le> round_double y"
proof (cases "x = 0")
  case True
  then have "round_double x \<le> 0" by (simp add: round_double_nonpos)
  also have "0 \<le> round_double y" using assms by (simp add: round_double_nonneg)
  finally show ?thesis .
next
  case False
  with assms have x: "0 < x" and y: "0 < y" by simp_all
  define ex where "ex = max (binade x) (- 1022)"
  define ey where "ey = max (binade y) (- 1022)"
  have ux: "ulp x = 2 powi (ex - 52)" and uy: "ulp y = 2 powi (ey - 52)"
    by (simp_all add: ulp_def ex_def ey_def)
  have le: "ex \<le> ey" using binade_mono [OF x assms(2)] by (simp add: ex_def ey_def)
  show ?thesis
  proof (cases "ex = ey")
    case True
    then have u: "ulp x = ulp y" by (simp add: ux uy)
    have "x / ulp y \<le> y / ulp y"
      using assms(2) by (rule divide_right_mono) (simp add: less_imp_le)
    then have "round_half_even (x / ulp y) \<le> round_half_even (y / ulp y)"
      by (rule round_half_even_mono)
    then show ?thesis by (simp add: round_double_def u mult_right_mono)
  next
    case False
    with le have lt: "ex < ey" by simp
    then have bey: "binade y = ey" and bx: "binade x + 1 \<le> ey"
      by (auto simp: ex_def ey_def max_def split: if_splits)
    have "x < 2 powi (binade x + 1)" using binade_bounds [of x] x by simp
    also have "\<dots> \<le> 2 powi ey" using bx by (simp add: power_int_increasing)
    finally have xb: "x \<le> 2 powi ey" by simp
    have gx: "(2::rat) powi ey = of_int (2 ^ nat (ey - ex + 52)) * ulp x"
    proof -
      have "(2::rat) powi ey = 2 powi (ey - ex + 52) * 2 powi (ex - 52)"
        using power_int_add [of "2::rat" "ey - ex + 52" "ex - 52"] by simp
      then show ?thesis using lt by (simp add: ux powi2_nat)
    qed
    have gy: "(2::rat) powi ey = of_int (2 ^ 52) * ulp y"
    proof -
      have "(2::rat) powi ey = 2 powi 52 * 2 powi (ey - 52)"
        using power_int_add [of "2::rat" 52 "ey - 52"] by simp
      then show ?thesis by (simp add: uy)
    qed
    have "round_double x \<le> 2 powi ey"
      using round_double_le_grid [of x "2 ^ nat (ey - ex + 52)"] xb gx by simp
    also have "2 powi ey \<le> round_double y"
    proof -
      have "2 powi ey \<le> y" using binade_bounds [of y] y bey by simp
      then show ?thesis using round_double_ge_grid [of "2 ^ 52" y] gy by simp
    qed
    finally show ?thesis .
  qed
qed

lemma round_double_grid: "\<exists>m. round_double x = of_int m * 2 powi (- 1074)"
proof -
  define e where "e = max (binade x) (- 1022)"
  have "ulp x = 2 powi (e + 1022) * 2 powi (- 1074)"
    by (simp add: ulp_def e_def power_int_add [symmetric])
  also have "(2::rat) powi (e + 1022) = of_int (2 ^ nat (e + 1022))"
    by (rule powi2_nat) (simp add: e_def)
  finally have "round_double x =
      of_int (round_half_even (x / ulp x) * 2 ^ nat (e + 1022)) * 2 powi (- 1074)"
    by (simp add: round_double_def)
  then show ?thesis by blast
qed

lemma round_double_zero:
  assumes "round_double x = 0"
  shows "\<bar>x\<bar> < 2 powi (- 1074)"
proof (cases "x = 0")
  case True
  then show ?thesis by simp
next
  case False
  define e where "e = max (binade x) (- 1022)"
  have u: "ulp x = 2 powi (e - 52)" by (simp add: ulp_def e_def)
  have "round_half_even (x / ulp x) = 0"
    using assms ulp_pos [of x] by (simp add: round_double_def)
  then have "\<bar>x / ulp x\<bar> \<le> 1 / 2" by (rule round_half_even_zero_bound)
  then have "\<bar>x\<bar> / ulp x \<le> 1 / 2" by (simp add: abs_of_pos)
  then have "\<bar>x\<bar> \<le> 1 / 2 * ulp x" by (simp only: pos_divide_le_eq ulp_pos)
  then have "\<bar>x\<bar> \<le> ulp x / 2" by simp
  also have "\<dots> = 2 powi (e - 53)"
  proof -
    have "(2::rat) powi (e - 52) = 2 powi (e - 53) * 2 powi 1"
      using power_int_add [of "2::rat" "e - 53" 1] by simp
    then show ?thesis by (simp add: u)
  qed
  finally have b: "\<bar>x\<bar> \<le> 2 powi (e - 53)" .
  have "2 powi binade x \<le> \<bar>x\<bar>" using binade_bounds [OF False] by simp
  with b have "(2::rat) powi binade x \<le> 2 powi (e - 53)" by simp
  then have "binade x \<le> e - 53" by (rule powi2_le_imp)
  then have "e = - 1022" by (simp add: e_def max_def split: if_splits)
  with b have "\<bar>x\<bar> \<le> 2 powi (- 1075)" by simp
  also have "(2::rat) powi (- 1075) < 2 powi (- 1074)"
    by (rule power_int_strict_increasing) simp_all
  finally show ?thesis .
qed

lemma double_sum_nonzero:
  assumes "is_double d" "d \<noteq> - 1"
  shows "round_double (1 + d) \<noteq> 0"
proof
  assume z: "round_double (1 + d) = 0"
  obtain m where "round_double d = of_int m * 2 powi (- 1074)"
    using round_double_grid by blast
  with assms(1) have d: "d = of_int m * 2 powi (- 1074)" by (simp add: is_double_def)
  have one: "(1::rat) = of_int (2 ^ 1074) * 2 powi (- 1074)"
    by (simp add: power_int_minus)
  have s: "1 + d = of_int (2 ^ 1074 + m) * 2 powi (- 1074)"
    by (subst d, subst (1) one) (simp only: of_int_add distrib_right)
  have "\<bar>1 + d\<bar> < 2 powi (- 1074)" using z by (rule round_double_zero)
  then have "\<bar>of_int (2 ^ 1074 + m) :: rat\<bar> * 2 powi (- 1074) < 1 * 2 powi (- 1074)"
    by (simp add: s abs_mult)
  then have "\<bar>of_int (2 ^ 1074 + m) :: rat\<bar> < 1"
    by (simp only: mult_less_cancel_right_pos zero_less_power_int zero_less_numeral)
  then have "\<bar>2 ^ 1074 + m\<bar> < 1"
    by (metis of_int_abs of_int_less_1_iff)
  then have "2 ^ 1074 + m = 0" by simp
  with s have "1 + d = 0" by simp
  with assms(2) show False by (simp add: add_eq_0_iff)
qed

lemma round_double_1 [simp]: "round_double 1 = 1"
  by code_simp

lemma round_double_100 [simp]: "round_double 100 = 100"
  by code_simp

text \<open>
  The rounding on known doubles: \<open>0.1\<close> and \<open>1/3\<close>, a tie going to the even significand
  above \<open>2^53\<close>, and the percentage at distance \<open>1999.0\<close>, which is the double \<open>0.05\<close>,
  slightly above one twentieth.
\<close>

lemma round_double_examples:
  "round_double (1 / 10) = 3602879701896397 / 36028797018963968 \<and>
   round_double (1 / 3) = 6004799503160661 / 18014398509481984 \<and>
   round_double (2 ^ 53 + 1) = 2 ^ 53 \<and>
   round_double (2 ^ 53 + 3) = 2 ^ 53 + 4 \<and>
   percentage 1999 = 3602879701896397 / 72057594037927936 \<and>
   percentage 0 = 100 \<and> percentage 1 = 50 \<and> percentage 3 = 25"
  by code_simp

lemma sum_ge_1:
  assumes "0 \<le> d"
  shows "1 \<le> round_double (1 + d)"
  using round_double_mono_pos [of 1 "1 + d"] assms by simp

lemma relevance_nonneg:
  assumes "0 \<le> d"
  shows "relevance d = Inr (format_1f (percentage d) @ ''%'')"
  using sum_ge_1 [OF assms] by (simp add: relevance_def)

lemma percentage_antitone:
  assumes "0 \<le> d1" "d1 \<le> d2"
  shows "0 \<le> percentage d2 \<and> percentage d2 \<le> percentage d1"
proof -
  define s1 where "s1 = round_double (1 + d1)"
  define s2 where "s2 = round_double (1 + d2)"
  have s1: "1 \<le> s1" unfolding s1_def using assms by (intro sum_ge_1) simp
  have s12: "s1 \<le> s2"
    unfolding s1_def s2_def using assms by (intro round_double_mono_pos) simp_all
  have q: "0 \<le> 1 / s2" "1 / s2 \<le> 1 / s1"
    using s1 s12 by (simp_all add: frac_le)
  define q1 where "q1 = round_double (1 / s1)"
  define q2 where "q2 = round_double (1 / s2)"
  have q2: "0 \<le> q2" unfolding q2_def using q(1) by (rule round_double_nonneg)
  have q12: "q2 \<le> q1" unfolding q1_def q2_def using q by (rule round_double_mono_pos)
  have "0 \<le> q2 * 100" "q2 * 100 \<le> q1 * 100" using q2 q12 by simp_all
  then have "0 \<le> round_double (q2 * 100)"
    "round_double (q2 * 100) \<le> round_double (q1 * 100)"
    by (simp_all add: round_double_nonneg round_double_mono_pos)
  then show ?thesis by (simp add: percentage_def s1_def s2_def q1_def q2_def)
qed

lemma tenths_antitone:
  assumes "0 \<le> d1" "d1 \<le> d2"
  shows "tenths (percentage d2) \<le> tenths (percentage d1)"
proof -
  have "0 \<le> percentage d2" "percentage d2 \<le> percentage d1"
    using percentage_antitone [OF assms] by simp_all
  then have "\<bar>percentage d2\<bar> * 10 \<le> \<bar>percentage d1\<bar> * 10" by simp
  then show ?thesis unfolding tenths_def by (rule round_half_even_mono)
qed

lemma tenths_nonneg: "0 \<le> tenths x"
proof -
  have "round_half_even (of_int 0) \<le> round_half_even (\<bar>x\<bar> * 10)"
    by (rule round_half_even_mono) simp
  then show ?thesis by (simp only: round_half_even_of_int tenths_def)
qed

lemma relevance_nonneg_digits:
  assumes "0 \<le> d"
  shows "relevance d =
     Inr (str_nat (nat (tenths (percentage d)) div 10) @ ''.'' @
          str_nat (nat (tenths (percentage d)) mod 10) @ ''%'')"
proof -
  have "0 \<le> percentage d" using percentage_antitone [of d d] assms by simp
  then show ?thesis using relevance_nonneg [OF assms] by (simp add: format_1f_def)
qed

text \<open>
  C4, as stated, fails: the score is rounded to one decimal, so it cannot be strictly
  decreasing. The distances \<open>1\<close> and \<open>1025/1024\<close> are doubles, non-negative and distinct,
  and both score \<^verbatim>\<open>50.0%\<close>.
\<close>

theorem relevance_strict_counterexample:
  "is_double 1 \<and> is_double (1025 / 1024) \<and> (0::rat) \<le> 1 \<and> (1::rat) < 1025 / 1024 \<and>
   relevance 1 = Inr ''50.0%'' \<and> relevance (1025 / 1024) = Inr ''50.0%''"
proof -
  have "is_double 1" "is_double (1025 / 1024)" by code_simp+
  moreover have "relevance 1 = Inr ''50.0%''" by code_simp
  moreover have "relevance (1025 / 1024) = Inr ''50.0%''" by code_simp
  ultimately show ?thesis by simp
qed

text \<open>
  C4, amended: the score of distance \<open>0\<close> is \<^verbatim>\<open>100.0%\<close>, that of \<open>1\<close> is \<^verbatim>\<open>50.0%\<close>, and
  for distances \<open>0 \<le> d1 \<le> d2\<close> each score is the decimal rendering \<^verbatim>\<open>t/10\<close> of a number
  \<open>t\<close> of tenths of a percent, the float \<^verbatim>\<open>(1 / (1 + d)) * 100\<close> rounded to one decimal,
  and the number of \<open>d2\<close> is at most that of \<open>d1\<close>: the score is non-increasing, not
  strictly decreasing.
\<close>

theorem relevance_fixed_points_monotone:
  assumes "0 \<le> d1" "d1 \<le> d2"
  shows "relevance 0 = Inr ''100.0%'' \<and> relevance 1 = Inr ''50.0%'' \<and>
         relevance d1 =
           Inr (str_nat (nat (tenths (percentage d1)) div 10) @ ''.'' @
                str_nat (nat (tenths (percentage d1)) mod 10) @ ''%'') \<and>
         relevance d2 =
           Inr (str_nat (nat (tenths (percentage d2)) div 10) @ ''.'' @
                str_nat (nat (tenths (percentage d2)) mod 10) @ ''%'') \<and>
         0 \<le> tenths (percentage d2) \<and>
         tenths (percentage d2) \<le> tenths (percentage d1)"
proof -
  have a: "relevance 0 = Inr ''100.0%''" by code_simp
  have b: "relevance 1 = Inr ''50.0%''" by code_simp
  have c: "relevance d1 =
           Inr (str_nat (nat (tenths (percentage d1)) div 10) @ ''.'' @
                str_nat (nat (tenths (percentage d1)) mod 10) @ ''%'')"
    using assms by (intro relevance_nonneg_digits) simp
  have d: "relevance d2 =
           Inr (str_nat (nat (tenths (percentage d2)) div 10) @ ''.'' @
                str_nat (nat (tenths (percentage d2)) mod 10) @ ''%'')"
    using assms by (intro relevance_nonneg_digits) simp
  from a b c d tenths_nonneg [of "percentage d2"] tenths_antitone [OF assms]
  show ?thesis by blast
qed

theorem relevance_fixed_points_monotone_witness:
  "relevance 0 = Inr ''100.0%'' \<and> relevance 1 = Inr ''50.0%'' \<and>
   relevance 1999 = Inr ''0.1%'' \<and>
   tenths (percentage 1) = 500 \<and> tenths (percentage 1999) = 1 \<and>
   tenths (percentage 1999) \<le> tenths (percentage 1)"
proof -
  have h: "(0::rat) \<le> 1" "(1::rat) \<le> 1999" by simp_all
  have v: "relevance 1999 = Inr ''0.1%''"
    "tenths (percentage 1) = 500" "tenths (percentage 1999) = 1"
    by code_simp+
  with relevance_fixed_points_monotone [OF h] show ?thesis by simp
qed

section \<open>Unavailable backends: the theorems\<close>

text \<open>
  C3, as stated, fails for the MCP server: with Milvus ready and the embedding model not
  loaded, \<^verbatim>\<open>generate_embedding\<close> raises and \<^verbatim>\<open>search_products_logic\<close> lets the exception
  through.
\<close>

theorem model_unavailable_counterexample:
  "MILVUS_READY E_no_model \<and> embedding_model E_no_model = None \<and>
   mcp_search_products_logic E_no_model B0 a_shoes =
     Inl (Exception ''Modello embedding non caricato'')"
  by (simp add: E_no_model_def mcp_search_products_logic_def generate_embedding_def)

text \<open>
  C3, amended: when Milvus is not ready, the search of the MCP server returns the payload
  \<^verbatim>\<open>{"error": "Milvus non connesso", "query_received": query}\<close> whatever the state of the
  model; when Milvus is ready and the model is not loaded it raises the exception of
  \<^verbatim>\<open>generate_embedding\<close>. The search of the cloud function returns its unavailability
  payload for either cause.
\<close>

theorem unavailable_results:
  "(\<not> MILVUS_READY E \<longrightarrow>
      mcp_search_products_logic E B a =
        Inr (JObj [(''error'', JStr ''Milvus non connesso''), (''query_received'', query a)])) \<and>
   (MILVUS_READY E \<and> embedding_model E = None \<longrightarrow>
      mcp_search_products_logic E B a = Inl (Exception ''Modello embedding non caricato'')) \<and>
   (\<not> MILVUS_READY E \<or> embedding_model E = None \<longrightarrow>
      gcp_search_products_logic E B a = Inr gcp_unavailable)"
  by (simp add: mcp_search_products_logic_def gcp_search_products_logic_def
      generate_embedding_def)

theorem unavailable_results_witness:
  "\<not> MILVUS_READY E_no_milvus \<and>
   mcp_search_products_logic E_no_milvus B0 a_shoes =
     Inr (JObj [(''error'', JStr ''Milvus non connesso''), (''query_received'', JStr ''shoes'')]) \<and>
   gcp_search_products_logic E_no_milvus B0 a_shoes = Inr gcp_unavailable \<and>
   MILVUS_READY E_no_model \<and> embedding_model E_no_model = None \<and>
   mcp_search_products_logic E_no_model B0 a_shoes =
     Inl (Exception ''Modello embedding non caricato'') \<and>
   gcp_search_products_logic E_no_model B0 a_shoes = Inr gcp_unavailable"
  using unavailable_results [of E_no_milvus B0 a_shoes]
    unavailable_results [of E_no_model B0 a_shoes]
  by (simp add: E_no_milvus_def E_no_model_def a_shoes_def filter_args_def)

section \<open>Protocol dispatcher: the theorems\<close>

lemma call_tool_lacks_query:
  "lacks_query args \<Longrightarrow> \<exists>m. call_tool E B args = Inl (TypeError m)"
  by (cases args) (auto simp: lacks_query_def call_tool_def bind_args_def split: list.splits)

lemma handle_mcp_tools_call:
  assumes "dict_get payload ''method'' JNull = JStr ''tools/call''"
      and "dict_get payload ''params'' (JObj []) = JObj ps"
  shows "handle_mcp E B (Inr (JObj payload)) =
     (case call_tool E B (dict_get ps ''arguments'' (JObj [])) of
        Inr r \<Rightarrow> Response (rpc_result (dict_get payload ''id'' JNull) r)
      | Inl e \<Rightarrow> Response (rpc_error (dict_get payload ''id'' JNull) (- 32000) (str_exn e)))"
  using assms by (simp add: handle_mcp_def Let_def)

text \<open>
  What holds of the error answers, for a request that is a JSON object: (1) a
  \<^verbatim>\<open>tools/call\<close> whose params are an object (or absent) and whose arguments have no
  \<^verbatim>\<open>query\<close> is answered with the error object of code \<open>-32000\<close>; (2) a method other than
  the five known ones is answered with the error object of code \<open>-32601\<close>; (3) \<^verbatim>\<open>ping\<close>
  is answered with the empty result, for every state \<open>E\<close> of the model and of Milvus.
\<close>

lemma dispatcher_errors:
  "(dict_get payload ''method'' JNull = JStr ''tools/call'' \<and>
    dict_get payload ''params'' (JObj []) = JObj ps \<and>
    lacks_query (dict_get ps ''arguments'' (JObj [])) \<longrightarrow>
      (\<exists>m. handle_mcp E B (Inr (JObj payload)) =
         Response (rpc_error (dict_get payload ''id'' JNull) (- 32000) m))) \<and>
   (dict_get payload ''method'' JNull \<notin>
      {JStr ''initialize'', JStr ''notifications/initialized'', JStr ''tools/list'',
       JStr ''tools/call'', JStr ''ping''} \<longrightarrow>
      handle_mcp E B (Inr (JObj payload)) =
        Response (rpc_error (dict_get payload ''id'' JNull) (- 32601) ''Method not found'')) \<and>
   (dict_get payload ''method'' JNull = JStr ''ping'' \<longrightarrow>
      handle_mcp E B (Inr (JObj payload)) =
        Response (rpc_result (dict_get payload ''id'' JNull) (JObj [])))"
proof (intro conjI impI)
  assume h: "dict_get payload ''method'' JNull = JStr ''tools/call'' \<and>
    dict_get payload ''params'' (JObj []) = JObj ps \<and>
    lacks_query (dict_get ps ''arguments'' (JObj []))"
  then obtain m where "call_tool E B (dict_get ps ''arguments'' (JObj [])) = Inl (TypeError m)"
    using call_tool_lacks_query by blast
  with h have "handle_mcp E B (Inr (JObj payload)) =
         Response (rpc_error (dict_get payload ''id'' JNull) (- 32000) m)"
    by (simp add: handle_mcp_tools_call [of payload ps])
  then show "\<exists>m. handle_mcp E B (Inr (JObj payload)) =
         Response (rpc_error (dict_get payload ''id'' JNull) (- 32000) m)"
    by blast
next
  assume "dict_get payload ''method'' JNull \<notin>
      {JStr ''initialize'', JStr ''notifications/initialized'', JStr ''tools/list'',
       JStr ''tools/call'', JStr ''ping''}"
  then show "handle_mcp E B (Inr (JObj payload)) =
        Response (rpc_error (dict_get payload ''id'' JNull) (- 32601) ''Method not found'')"
    by (simp add: handle_mcp_def Let_def)
next
  assume "dict_get payload ''method'' JNull = JStr ''ping''"
  then show "handle_mcp E B (Inr (JObj payload)) =
        Response (rpc_result (dict_get payload ''id'' JNull) (JObj []))"
    by (simp add: handle_mcp_def Let_def)
qed

lemma dispatcher_errors_example:
  "handle_mcp E_no_milvus B0 (Inr (JObj call_without_query)) =
     Response (rpc_error (JInt 7) (- 32000)
       (''search_products_logic() missing 1 required positional argument: '' @
        squote @ ''query'' @ squote)) \<and>
   handle_mcp E_no_milvus B0 (Inr (JObj unknown_method)) =
     Response (rpc_error (JStr ''a'') (- 32601) ''Method not found'') \<and>
   handle_mcp E_no_milvus B0 (Inr (JObj ping_request)) = Response (rpc_result (JInt 9) (JObj []))"
proof -
  have a: "handle_mcp E_no_milvus B0 (Inr (JObj call_without_query)) =
     Response (rpc_error (JInt 7) (- 32000)
       (''search_products_logic() missing 1 required positional argument: '' @
        squote @ ''query'' @ squote))"
    using dispatcher_errors [of call_without_query
        "[(''name'', JStr ''search_products''), (''arguments'', JObj [(''top_k'', JInt 3)])]"
        E_no_milvus B0]
    by (simp add: call_without_query_def dict_get_def lacks_query_def handle_mcp_def
        call_tool_def bind_args_def param_names_def)
  have b: "handle_mcp E_no_milvus B0 (Inr (JObj unknown_method)) =
     Response (rpc_error (JStr ''a'') (- 32601) ''Method not found'')"
    using dispatcher_errors [of unknown_method "[]" E_no_milvus B0]
    by (simp add: unknown_method_def dict_get_def)
  have c: "handle_mcp E_no_milvus B0 (Inr (JObj ping_request)) =
     Response (rpc_result (JInt 9) (JObj []))"
    using dispatcher_errors [of ping_request "[]" E_no_milvus B0]
    by (simp add: ping_request_def dict_get_def)
  from a b c show ?thesis by simp
qed

text \<open>
  C2 fails in its first part: \<^verbatim>\<open>args = params.get("arguments", {})\<close> stands before the
  \<^verbatim>\<open>try\<close>. A \<^verbatim>\<open>tools/call\<close> whose params are \<^verbatim>\<open>null\<close> has no arguments, hence no
  \<^verbatim>\<open>query\<close>; the attribute lookup raises and the handler returns no error object: the
  exception is not caught.
\<close>

theorem tools_call_null_params_unhandled:
  "dict_get call_null_params ''method'' JNull = JStr ''tools/call'' \<and>
   dict_get call_null_params ''params'' (JObj []) = JNull \<and>
   handle_mcp E_ready B0 (Inr (JObj call_null_params)) = Unhandled no_get \<and>
   handle_mcp E_no_milvus B0 (Inr (JObj call_null_params)) = Unhandled no_get"
  by (simp add: call_null_params_def dict_get_def handle_mcp_def)

text \<open>
  C8: every request that is a JSON object, and whose params are an object (or absent) when
  the method is \<^verbatim>\<open>tools/call\<close>, is answered with a body whose \<^verbatim>\<open>id\<close> is the \<^verbatim>\<open>id\<close> of
  the request (\<^verbatim>\<open>None\<close> when the request has none), on every branch: results, the
  \<open>-32000\<close> error and the unknown-method error.
\<close>

theorem response_carries_id:
  assumes "dict_get payload ''method'' JNull = JStr ''tools/call'' \<longrightarrow>
           (\<exists>ps. dict_get payload ''params'' (JObj []) = JObj ps)"
  shows "\<exists>body. handle_mcp E B (Inr (JObj payload)) = Response (JObj body) \<and>
           map_of body ''id'' = Some (dict_get payload ''id'' JNull)"
proof (cases "dict_get payload ''method'' JNull = JStr ''tools/call''")
  case True
  with assms obtain ps where ps: "dict_get payload ''params'' (JObj []) = JObj ps" by blast
  show ?thesis
    by (simp add: handle_mcp_tools_call [OF True ps] rpc_result_def rpc_error_def split: sum.splits)
next
  case False
  then show ?thesis
    by (simp add: handle_mcp_def Let_def rpc_result_def rpc_error_def)
qed

theorem response_carries_id_witness:
  "dict_get call_with_query ''id'' JNull = JInt 8 \<and>
   (\<exists>body. handle_mcp E_no_milvus B0 (Inr (JObj call_with_query)) = Response (JObj body) \<and>
      map_of body ''id'' = Some (JInt 8)) \<and>
   (\<exists>body. handle_mcp E_no_milvus B0 (Inr (JObj unknown_method)) = Response (JObj body) \<and>
      map_of body ''id'' = Some (JStr ''a''))"
  using response_carries_id [of call_with_query E_no_milvus B0]
    response_carries_id [of unknown_method E_no_milvus B0]
  by (simp add: call_with_query_def unknown_method_def dict_get_def)

text \<open>
  C7, as stated, fails: the body \<^verbatim>\<open>{}\<close> is JSON but not the expected envelope (it has
  no id, no method, no params); it is not rejected with a client-error status but
  dispatched, and answered with status 200 and the unknown-method error \<open>-32601\<close>.
\<close>

theorem envelope_counterexample:
  "handle_mcp E_no_model B0 (Inr (JObj [])) =
     Response (rpc_error JNull (- 32601) ''Method not found'')"
  by (simp add: handle_mcp_def dict_get_def)

text \<open>
  C7, amended: a body that is not parseable as JSON is rejected with the HTTP status 400
  before any dispatch. A body that parses to a JSON object is not rejected for the
  envelope fields it lacks: a missing id or method is read as \<^verbatim>\<open>None\<close>, missing params
  as \<^verbatim>\<open>{}\<close>; a body without a method is answered with the JSON-RPC error \<open>-32601\<close>, and
  every object body is answered with a JSON-RPC body provided that, when its method is
  \<^verbatim>\<open>tools/call\<close>, its params are absent or an object.
\<close>

theorem malformed_body_rejected:
  "handle_mcp E B (Inl e) = HTTPException 400 ''Invalid JSON'' \<and>
   (map_of payload ''method'' = None \<longrightarrow>
      handle_mcp E B (Inr (JObj payload)) =
        Response (rpc_error (dict_get payload ''id'' JNull) (- 32601) ''Method not found'')) \<and>
   ((dict_get payload ''method'' JNull = JStr ''tools/call'' \<longrightarrow>
       map_of payload ''params'' = None \<or> (\<exists>ps. map_of payload ''params'' = Some (JObj ps))) \<longrightarrow>
      (\<exists>body. handle_mcp E B (Inr (JObj payload)) = Response (JObj body)))"
proof (intro conjI impI)
  show "handle_mcp E B (Inl e) = HTTPException 400 ''Invalid JSON''"
    by (simp add: handle_mcp_def)
next
  assume "map_of payload ''method'' = None"
  then show "handle_mcp E B (Inr (JObj payload)) =
        Response (rpc_error (dict_get payload ''id'' JNull) (- 32601) ''Method not found'')"
    by (simp add: handle_mcp_def Let_def dict_get_def)
next
  assume h: "dict_get payload ''method'' JNull = JStr ''tools/call'' \<longrightarrow>
       map_of payload ''params'' = None \<or> (\<exists>ps. map_of payload ''params'' = Some (JObj ps))"
  show "\<exists>body. handle_mcp E B (Inr (JObj payload)) = Response (JObj body)"
  proof (cases "dict_get payload ''method'' JNull = JStr ''tools/call''")
    case True
    with h obtain ps where ps: "dict_get payload ''params'' (JObj []) = JObj ps"
      by (auto simp: dict_get_def)
    show ?thesis
      by (simp add: handle_mcp_tools_call [OF True ps] rpc_result_def rpc_error_def
          split: sum.splits)
  next
    case False
    then show ?thesis
      by (simp add: handle_mcp_def Let_def rpc_result_def rpc_error_def)
  qed
qed

theorem malformed_body_rejected_witness:
  "handle_mcp E_ready B0 (Inl (Exception ''Expecting value'')) =
     HTTPException 400 ''Invalid JSON'' \<and>
   map_of [] ''method'' = (None :: json option) \<and>
   handle_mcp E_ready B0 (Inr (JObj [])) =
     Response (rpc_error JNull (- 32601) ''Method not found'') \<and>
   map_of call_no_params ''params'' = None \<and>
   handle_mcp E_ready B0 (Inr (JObj call_no_params)) =
     Response (rpc_error JNull (- 32000)
       (''search_products_logic() missing 1 required positional argument: '' @
        squote @ ''query'' @ squote))"
  using malformed_body_rejected [of E_ready B0 "Exception ''Expecting value''" "[]"]
    malformed_body_rejected [of E_ready B0 "Exception ''Expecting value''" call_no_params]
  by (simp add: call_no_params_def dict_get_def handle_mcp_def call_tool_def bind_args_def
      param_names_def)

text \<open>
  A body that is JSON but not an object has no \<^verbatim>\<open>get\<close>: the attribute lookup raises
  outside every \<^verbatim>\<open>try\<close> and the handler does not answer.
\<close>

lemma non_object_body_unhandled:
  "handle_mcp E B (Inr (JArr xs)) = Unhandled no_get \<and>
   handle_mcp E B (Inr JNull) = Unhandled no_get \<and>
   handle_mcp E B (Inr (JStr s)) = Unhandled no_get"
  by (simp add: handle_mcp_def)

section \<open>Search results: the theorems\<close>

lemma map_exn_length: "map_exn f xs = Inr ys \<Longrightarrow> length ys = length xs"
  by (induction xs arbitrary: ys) (auto split: sum.splits)

lemma within_limit_single:
  assumes "within_limit req results" "data req = [v]" "limit req = JInt k"
  shows "int (length (concat results)) \<le> k"
proof -
  from assms obtain hits where r: "results = [hits]"
    by (cases results) (auto simp: within_limit_def)
  with assms show ?thesis by (simp add: within_limit_def)
qed

lemma mcp_payload:
  assumes "mcp_search_products_logic E B a = Inr (JObj r)"
      and "map_of r ''products'' = Some (JArr ps)"
  shows "\<exists>v results. collection_search E (mcp_request B a v) = Inr results \<and>
           length ps = length (concat results) \<and>
           map_of r ''total_results'' = Some (JInt (int (length ps)))"
  using assms
  by (auto simp: mcp_search_products_logic_def split: if_splits sum.splits)
    (metis map_exn_length)

text \<open>
  C6: when the search returns a payload with products, \<^verbatim>\<open>total_results\<close> is the length
  of the product list; and when \<^verbatim>\<open>top_k\<close> is the integer \<open>k\<close> and the vector index keeps
  its contract (one hit list for each query vector, none longer than the limit), the
  list has at most \<open>k\<close> products.
\<close>

theorem total_results_and_limit:
  assumes "mcp_search_products_logic E B a = Inr (JObj r)"
      and "map_of r ''products'' = Some (JArr ps)"
      and "top_k a = JInt k"
      and "\<And>req results. collection_search E req = Inr results \<Longrightarrow> within_limit req results"
  shows "map_of r ''total_results'' = Some (JInt (int (length ps))) \<and> int (length ps) \<le> k"
proof -
  from mcp_payload [OF assms(1,2)] obtain v results where
    s: "collection_search E (mcp_request B a v) = Inr results" and
    l: "length ps = length (concat results)" and
    t: "map_of r ''total_results'' = Some (JInt (int (length ps)))"
    by blast
  have "within_limit (mcp_request B a v) results" using assms(4) s by blast
  then have "int (length (concat results)) \<le> k"
    by (rule within_limit_single) (simp_all add: mcp_request_def assms(3))
  with l t show ?thesis by simp
qed

lemma idx_two_within_limit:
  "collection_search E_ready req = Inr results \<Longrightarrow> within_limit req results"
  by (auto simp: collection_search_def E_ready_def idx_two_def within_limit_def list_all_iff
      split: json.splits if_splits)

theorem total_results_and_limit_witness:
  "mcp_search_products_logic E_ready B0 (a_shoes\<lparr>top_k := JInt 1\<rparr>) =
     Inr (JObj [(''query'', JStr ''shoes''), (''total_results'', JInt 1),
       (''products'', JArr [JObj
          [(''product_id'', JInt 1), (''name'', JStr ''Trail Runner''), (''category'', JNull),
           (''description'', JNull), (''price'', JFloat 80), (''in_stock'', JNull),
           (''brand'', JNull), (''relevance'', JStr ''50.0%'')]])]) \<and>
   int (length [JObj
          [(''product_id'', JInt 1), (''name'', JStr ''Trail Runner''), (''category'', JNull),
           (''description'', JNull), (''price'', JFloat 80), (''in_stock'', JNull),
           (''brand'', JNull), (''relevance'', JStr ''50.0%'')]]) \<le> 1"
proof -
  have r: "relevance 1 = Inr ''50.0%''" by code_simp
  have s: "mcp_search_products_logic E_ready B0 (a_shoes\<lparr>top_k := JInt 1\<rparr>) =
     Inr (JObj [(''query'', JStr ''shoes''), (''total_results'', JInt 1),
       (''products'', JArr [JObj
          [(''product_id'', JInt 1), (''name'', JStr ''Trail Runner''), (''category'', JNull),
           (''description'', JNull), (''price'', JFloat 80), (''in_stock'', JNull),
           (''brand'', JNull), (''relevance'', JStr ''50.0%'')]])])"
    by (simp add: mcp_search_products_logic_def E_ready_def a_shoes_def filter_args_def
        generate_embedding_def collection_search_def mcp_request_def idx_two_def
        mcp_product_def h_near_def entity_get_def dict_get_def r)
  from total_results_and_limit [OF s _ _ idx_two_within_limit, of _ 1] s show ?thesis
    by simp
qed


lemma tenths_at_least_1000:
  assumes "is_double d" "- 1 < d" "d < 0"
  shows "100 \<le> percentage d \<and> 1000 \<le> tenths (percentage d)"
proof -
  define s where "s = round_double (1 + d)"
  have "0 \<le> s" unfolding s_def using assms by (intro round_double_nonneg) simp
  moreover have "s \<noteq> 0" unfolding s_def using assms by (intro double_sum_nonzero) simp_all
  ultimately have s0: "0 < s" by simp
  have "s \<le> round_double 1"
    unfolding s_def using assms by (intro round_double_mono_pos) simp_all
  then have s1: "s \<le> 1" by simp
  have "1 \<le> 1 / s" using s0 s1 by simp
  then have "round_double 1 \<le> round_double (1 / s)"
    by (intro round_double_mono_pos) simp_all
  then have "100 \<le> round_double (1 / s) * 100" by simp
  then have "round_double 100 \<le> round_double (round_double (1 / s) * 100)"
    by (intro round_double_mono_pos) simp_all
  then have p: "100 \<le> percentage d" by (simp add: percentage_def s_def)
  then have "of_int 1000 \<le> \<bar>percentage d\<bar> * 10" by simp
  then have "round_half_even (of_int 1000) \<le> round_half_even (\<bar>percentage d\<bar> * 10)"
    by (rule round_half_even_mono)
  then have "1000 \<le> round_half_even (\<bar>percentage d\<bar> * 10)"
    by (simp only: round_half_even_of_int)
  with p show ?thesis by (simp add: tenths_def)
qed



section \<open>Catalog indexer: the theorems\<close>

lemma getitem_column_fails:
  assumes "p \<in> set ps" "map_of p k = None"
  shows "\<exists>e. map_exn (getitem k) ps = Inl e"
  using assms
  by (induction ps) (auto simp: getitem_def split: sum.splits option.splits)

lemma missing_field:
  assumes "\<not> list_all well_formed ps"
  shows "\<exists>p k. p \<in> set ps \<and> k \<in> set required_fields \<and> map_of p k = None"
  using assms by (auto simp: list_all_iff well_formed_def)

lemma insert_products_fails:
  assumes "\<not> list_all well_formed ps"
  shows "\<exists>e. insert_products X c ps embeddings = Inl e"
proof -
  from missing_field [OF assms] obtain p k where
    p: "p \<in> set ps" and k: "k \<in> set required_fields" and n: "map_of p k = None"
    by blast
  from getitem_column_fails [OF p n] obtain e where e: "map_exn (getitem k) ps = Inl e"
    by blast
  from k e show ?thesis
    by (auto simp: required_fields_def insert_products_def bind_exn_def split: sum.splits)
qed

text \<open>
  C9: when some record of the input lacks one of the seven required fields, the run ends
  with an exception and inserts nothing: the server is left untouched when the connection
  failed, and holds the freshly created, empty collection otherwise.
\<close>

theorem malformed_record_fails_build:
  assumes "products_file X = Inr ps" "\<not> list_all well_formed ps"
  shows "\<exists>e. main X db =
           (Inl e, if connect_error X = None
                   then Some \<lparr>batches = [], has_index = True, loaded = False\<rparr> else db)"
proof (cases "connect_error X")
  case (Some e)
  then show ?thesis by (simp add: main_def)
next
  case None
  have ins: "insert_products X (create_collection db) ps embeddings \<noteq> Inr c'"
    for embeddings c'
    using insert_products_fails [OF assms(2), of X "create_collection db" embeddings] by auto
  show ?thesis
    using None assms(1) ins
    by (auto simp: main_def Let_def create_collection_def split: sum.splits)
qed

theorem malformed_record_fails_build_witness:
  "products_file X_missing_brand = Inr [shoe_record, jacket_record] \<and>
   well_formed shoe_record \<and> \<not> well_formed jacket_record \<and>
   main X_missing_brand None =
     (Inl (KeyError (squote @ ''brand'' @ squote)),
      Some \<lparr>batches = [], has_index = True, loaded = False\<rparr>)"
proof -
  have f: "products_file X_missing_brand = Inr [shoe_record, jacket_record]"
    by (simp add: X_missing_brand_def)
  have w: "well_formed shoe_record" "\<not> well_formed jacket_record"
    by (simp_all add: well_formed_def required_fields_def shoe_record_def jacket_record_def)
  then have n: "\<not> list_all well_formed [shoe_record, jacket_record]" by simp
  have m: "main X_missing_brand None =
     (Inl (KeyError (squote @ ''brand'' @ squote)),
      Some \<lparr>batches = [], has_index = True, loaded = False\<rparr>)"
    using malformed_record_fails_build [OF f n, of None]
    by (simp add: main_def X_missing_brand_def create_collection_def insert_products_def
        bind_exn_def getitem_def shoe_record_def jacket_record_def)
  from f w m show ?thesis by simp
qed

end
